theory Spec2Isabelle
  imports Complex_Main
begin

section \<open>Virtual try-on: the pose written to the glasses overlay\<close>

text \<open>
  A shallow embedding of \<^verbatim>\<open>src/VirtualTryOn.js\<close>: the asynchronous function
  \<^verbatim>\<open>detectAndPositionGlasses\<close>, the interval that drives it and the cleanup that
  clears the interval.

  JavaScript numbers are idealised as real numbers: the keypoint coordinates that the
  face-landmark model returns are finite, every operation of the function keeps finite
  values finite, and rounding is not modelled. \<^verbatim>\<open>Math.sqrt\<close>, \<^verbatim>\<open>Math.pow\<close> and
  \<^verbatim>\<open>Math.atan2\<close> are built-ins of the language, modelled by the functions they
  approximate.
\<close>

subsection \<open>Data\<close>

text \<open>
  \<^verbatim>\<open>THREE.Vector3\<close> (and the \<^verbatim>\<open>x\<close>, \<^verbatim>\<open>y\<close>, \<^verbatim>\<open>z\<close> of a \<^verbatim>\<open>THREE.Euler\<close>, whose
  rotation order the function never touches).
\<close>

record vector3 =
  x :: real
  y :: real
  z :: real

text \<open>The fields of the \<^verbatim>\<open>THREE.Object3D\<close> that the function writes.\<close>

record object3d =
  position :: vector3
  scale :: vector3
  rotation :: vector3

text \<open>The fields of the \<^verbatim>\<open>HTMLVideoElement\<close> that the function reads.\<close>

record video_element =
  readyState :: nat
  videoWidth :: nat
  videoHeight :: nat

text \<open>The \<^verbatim>\<open>react-webcam\<close> instance behind \<^verbatim>\<open>webcamRef.current\<close>.\<close>

record webcam =
  video :: video_element

datatype facemesh = MediaPipeFacemesh

text \<open>
  One entry of \<^verbatim>\<open>scaledMesh\<close>: the library's \<^verbatim>\<open>[number, number, number]\<close>. The
  function reads the entries \<^verbatim>\<open>[0]\<close> and \<^verbatim>\<open>[1]\<close>.
\<close>

type_synonym coord3 = "real \<times> real \<times> real"

definition coord_0 :: "coord3 \<Rightarrow> real" where
  "coord_0 p = fst p"

definition coord_1 :: "coord3 \<Rightarrow> real" where
  "coord_1 p = fst (snd p)"

text \<open>One face of the detection result; only \<^verbatim>\<open>scaledMesh\<close> is read.\<close>

record face =
  scaledMesh :: "coord3 list"

text \<open>
  The component's state: the ref and the two state variables that gate the function,
  and the loading flag it clears. \<^verbatim>\<open>glassesMesh\<close> holds the overlay object itself:
  the state variable is set once and the object is reached through it only.
\<close>

record component =
  webcamRef :: "webcam option"
  model :: "facemesh option"
  glassesMesh :: "object3d option"
  isLoading :: bool

datatype js_error = TypeError

text \<open>How the promise of the asynchronous function settles.\<close>

datatype completion = Fulfilled | Rejected js_error

text \<open>
  Where the function stands when it gives control back for the first time: it has
  returned, or it has called \<^verbatim>\<open>model.estimateFaces({ input: video })\<close> and awaits
  the result.
\<close>

datatype suspension = Returned | AwaitEstimateFaces video_element

subsection \<open>Built-ins\<close>

text \<open>Reading an array at an index: \<^verbatim>\<open>undefined\<close> out of range.\<close>

definition js_index :: "'a list \<Rightarrow> nat \<Rightarrow> 'a option" where
  "js_index xs i = (if i < length xs then Some (xs ! i) else None)"

definition Math_sqrt :: "real \<Rightarrow> real" where
  "Math_sqrt v = sqrt v"

text \<open>\<^verbatim>\<open>Math.pow\<close>, for the non-negative integer exponents the function uses.\<close>

definition Math_pow :: "real \<Rightarrow> nat \<Rightarrow> real" where
  "Math_pow b e = b ^ e"

text \<open>
  \<^verbatim>\<open>Math.atan2(dy, dx)\<close>: the angle in \<open>(-\<pi>, \<pi>]\<close> of the point \<open>(dx, dy)\<close>, and 0
  at the origin.
\<close>

definition Math_atan2 :: "real \<Rightarrow> real \<Rightarrow> real" where
  "Math_atan2 dy dx =
     (if 0 < dx then arctan (dy / dx)
      else if dx < 0 then (if 0 \<le> dy then arctan (dy / dx) + pi else arctan (dy / dx) - pi)
      else if 0 < dy then pi / 2
      else if dy < 0 then - (pi / 2)
      else 0)"

subsection \<open>detectAndPositionGlasses\<close>

definition scaleX :: real where "scaleX = 0.01"
definition scaleY :: real where "scaleY = 0.01"
definition offsetX :: real where "offsetX = 0.0"
definition offsetY :: real where "offsetY = - 0.1"

text \<open>The function up to its \<^verbatim>\<open>await\<close>: the two guards, then the detection call.\<close>

definition detectAndPositionGlasses :: "component \<Rightarrow> suspension" where
  "detectAndPositionGlasses s =
     (case webcamRef s of
        None \<Rightarrow> Returned
      | Some current \<Rightarrow>
          if model s = None \<or> glassesMesh s = None then Returned
          else if readyState (video current) = 4
            then AwaitEstimateFaces (video current)
            else Returned)"

text \<open>
  The function from the \<^verbatim>\<open>await\<close> on, run when the detection call resolves with
  \<open>faceEstimates\<close>; \<open>vid\<close> is the \<^verbatim>\<open>video\<close> element captured before the \<^verbatim>\<open>await\<close>. A read
  of \<^verbatim>\<open>[0]\<close> on \<^verbatim>\<open>undefined\<close> (or of a field of \<^verbatim>\<open>null\<close>) throws, which rejects
  the promise and keeps the writes made so far.
\<close>

definition detectAndPositionGlasses_resume ::
  "video_element \<Rightarrow> face list \<Rightarrow> component \<Rightarrow> completion \<times> component" where
  "detectAndPositionGlasses_resume vid faceEstimates s =
     (if 0 < length faceEstimates then
        (let s1 = s\<lparr>isLoading := False\<rparr>;
             keypoints = scaledMesh (faceEstimates ! 0);
             leftEye = js_index keypoints 130;
             rightEye = js_index keypoints 359;
             noseTip = js_index keypoints 70;
             eyeCenter = js_index keypoints 168
         in case rightEye of
              None \<Rightarrow> (Rejected TypeError, s1)
            | Some rightEye \<Rightarrow>
         (case leftEye of
              None \<Rightarrow> (Rejected TypeError, s1)
            | Some leftEye \<Rightarrow>
         (let eyeDistance = Math_sqrt
                (Math_pow (coord_0 rightEye - coord_0 leftEye) 2 +
                 Math_pow (coord_1 rightEye - coord_1 leftEye) 2);
              scaleMultiplier = eyeDistance / 250
          in case glassesMesh s1 of
               None \<Rightarrow> (Rejected TypeError, s1)
             | Some mesh \<Rightarrow>
          (case eyeCenter of
               None \<Rightarrow> (Rejected TypeError, s1)
             | Some eyeCenter \<Rightarrow>
          (let mesh1 = mesh\<lparr>position := (position mesh)
                 \<lparr>x := (coord_0 eyeCenter - real (videoWidth vid) / 2) * scaleX + offsetX\<rparr>\<rparr>;
               mesh2 = mesh1\<lparr>position := (position mesh1)
                 \<lparr>y := (coord_1 eyeCenter - real (videoHeight vid) / 2) * - scaleY + offsetY\<rparr>\<rparr>;
               mesh3 = mesh2\<lparr>scale := (scale mesh2)
                 \<lparr>x := scaleMultiplier, y := scaleMultiplier, z := scaleMultiplier\<rparr>\<rparr>;
               mesh4 = mesh3\<lparr>position := (position mesh3)\<lparr>z := 1\<rparr>\<rparr>;
               eyeLine = (coord_0 rightEye - coord_0 leftEye, coord_1 rightEye - coord_1 leftEye);
               angleY = - Math_atan2 (snd eyeLine) (fst eyeLine)
           in case noseTip of
                None \<Rightarrow> (Rejected TypeError, s1\<lparr>glassesMesh := Some mesh4\<rparr>)
              | Some noseTip \<Rightarrow>
           (let vectorNoseToEyeCenter =
                  (coord_0 eyeCenter - coord_0 noseTip, coord_1 eyeCenter - coord_1 noseTip);
                angleX = Math_atan2 (snd vectorNoseToEyeCenter) (fst vectorNoseToEyeCenter);
                angleZ = - Math_atan2 (snd eyeLine) (fst eyeLine);
                mesh5 = mesh4\<lparr>rotation := (rotation mesh4)\<lparr>x := angleX\<rparr>\<rparr>;
                mesh6 = mesh5\<lparr>rotation := (rotation mesh5)\<lparr>y := angleY\<rparr>\<rparr>;
                mesh7 = mesh6\<lparr>rotation := (rotation mesh6)\<lparr>z := angleZ\<rparr>\<rparr>
            in (Fulfilled, s1\<lparr>glassesMesh := Some mesh7\<rparr>)))))))
      else (Fulfilled, s))"

subsection \<open>The interval and its cleanup\<close>

text \<open>
  The effect registers an interval whose callback calls the function, and returns a
  cleanup that clears the interval. \<open>inflight\<close> lists the detection calls that have
  not resolved yet, each with the video element it captured. No event below changes
  the video element, so the element captured at the tick is the one the continuation
  reads when the call resolves.
\<close>

record scheduler =
  ui :: component
  intervalActive :: bool
  inflight :: "video_element list"

text \<open>
  What the event loop can run: the interval's callback, the continuation of the
  \<open>k\<close>-th pending detection call with its result, and the cleanup.
\<close>

datatype event = Tick | EstimateFacesResolved nat "face list" | ClearInterval

fun sched_step :: "scheduler \<Rightarrow> event \<Rightarrow> scheduler" where
  "sched_step st Tick =
     (if intervalActive st then
        (case detectAndPositionGlasses (ui st) of
           Returned \<Rightarrow> st
         | AwaitEstimateFaces v \<Rightarrow> st\<lparr>inflight := inflight st @ [v]\<rparr>)
      else st)"
| "sched_step st (EstimateFacesResolved k faceEstimates) =
     (if k < length (inflight st) then
        st\<lparr>ui := snd (detectAndPositionGlasses_resume (inflight st ! k) faceEstimates (ui st)),
           inflight := take k (inflight st) @ drop (Suc k) (inflight st)\<rparr>
      else st)"
| "sched_step st ClearInterval = st\<lparr>intervalActive := False\<rparr>"

definition sched_run :: "scheduler \<Rightarrow> event list \<Rightarrow> scheduler" where
  "sched_run st evs = foldl sched_step st evs"

subsection \<open>Example inputs\<close>

text \<open>
  The scenario of the specification: a frame of 800 by 800 pixels, the eyes at
  (100, 200) and (300, 200), the nose keypoint at (200, 260) and the eye centre at
  (200, 200), in a mesh of 468 keypoints; variants of the face with the right eye moved;
  and the overlay as the loader leaves it, scaled to 0.05.
\<close>

definition example_mesh :: "coord3 list" where
  "example_mesh = (replicate 468 (0, 0, 0))
     [130 := (100, 200, 0), 359 := (300, 200, 0), 70 := (200, 260, 0), 168 := (200, 200, 0)]"

definition example_face :: face where
  "example_face = \<lparr>scaledMesh = example_mesh\<rparr>"

definition example_face_far :: face where
  "example_face_far = \<lparr>scaledMesh = example_mesh[359 := (500, 200, 0)]\<rparr>"

definition example_video :: video_element where
  "example_video = \<lparr>readyState = 4, videoWidth = 800, videoHeight = 800\<rparr>"

definition loaded_glasses :: object3d where
  "loaded_glasses = \<lparr>position = \<lparr>x = 0, y = 0, z = 0\<rparr>,
     scale = \<lparr>x = 0.05, y = 0.05, z = 0.05\<rparr>,
     rotation = \<lparr>x = 0, y = 0, z = 0\<rparr>\<rparr>"

definition ready_component :: component where
  "ready_component = \<lparr>webcamRef = Some \<lparr>video = example_video\<rparr>,
     model = Some MediaPipeFacemesh, glassesMesh = Some loaded_glasses, isLoading = True\<rparr>"

definition running_scheduler :: scheduler where
  "running_scheduler = \<lparr>ui = ready_component, intervalActive = True, inflight = []\<rparr>"

definition example_face_closed :: face where
  "example_face_closed = \<lparr>scaledMesh = example_mesh[359 := (100, 200, 0)]\<rparr>"

definition example_face_tilted :: face where
  "example_face_tilted = \<lparr>scaledMesh = example_mesh[359 := (300, 400, 0)]\<rparr>"

definition example_face_other :: face where
  "example_face_other = \<lparr>scaledMesh = (replicate 478 (7, 7, 7))
     [130 := (100, 200, 0), 359 := (300, 200, 0), 70 := (200, 260, 0), 168 := (200, 200, 0)]\<rparr>"

text \<open>
  Two schedulers that are not ready: one whose overlay asset has not loaded, one
  whose video element is still buffering (\<^verbatim>\<open>readyState\<close> 2).
\<close>

definition asset_missing_scheduler :: scheduler where
  "asset_missing_scheduler =
     \<lparr>ui = ready_component\<lparr>glassesMesh := None\<rparr>, intervalActive = True, inflight = []\<rparr>"

definition buffering_scheduler :: scheduler where
  "buffering_scheduler =
     \<lparr>ui = ready_component\<lparr>webcamRef := Some \<lparr>video = example_video\<lparr>readyState := 2\<rparr>\<rparr>\<rparr>,
      intervalActive = True, inflight = []\<rparr>"

section \<open>Properties\<close>

subsection \<open>Evaluating the examples\<close>

lemma example_mesh_length: "length example_mesh = 468"
  by (simp add: example_mesh_def)

lemma example_mesh_130: "example_mesh ! 130 = (100, 200, 0)"
  by (simp add: example_mesh_def)
lemma example_mesh_359: "example_mesh ! 359 = (300, 200, 0)"
  by (simp add: example_mesh_def)
lemma example_mesh_70: "example_mesh ! 70 = (200, 260, 0)"
  by (simp add: example_mesh_def)
lemma example_mesh_168: "example_mesh ! 168 = (200, 200, 0)"
  by (simp add: example_mesh_def)

subsection \<open>An applying cycle\<close>

text \<open>
  With an overlay object and a first face whose mesh reaches index 359, the
  continuation runs to its end: it clears the loading flag and overwrites every
  coordinate of position, scale and rotation.
\<close>

lemma resume_applied:
  assumes "glassesMesh s = Some m" and "359 < length (scaledMesh f)"
  shows "detectAndPositionGlasses_resume vid (f # fs) s =
    (Fulfilled, s\<lparr>isLoading := False, glassesMesh := Some (m
      \<lparr>position := (position m)
          \<lparr>x := (coord_0 (scaledMesh f ! 168) - real (videoWidth vid) / 2) * scaleX + offsetX,
           y := (coord_1 (scaledMesh f ! 168) - real (videoHeight vid) / 2) * - scaleY + offsetY,
           z := 1\<rparr>,
       scale := (scale m)
          \<lparr>x := Math_sqrt (Math_pow (coord_0 (scaledMesh f ! 359) - coord_0 (scaledMesh f ! 130)) 2 +
                 Math_pow (coord_1 (scaledMesh f ! 359) - coord_1 (scaledMesh f ! 130)) 2) / 250,
           y := Math_sqrt (Math_pow (coord_0 (scaledMesh f ! 359) - coord_0 (scaledMesh f ! 130)) 2 +
                 Math_pow (coord_1 (scaledMesh f ! 359) - coord_1 (scaledMesh f ! 130)) 2) / 250,
           z := Math_sqrt (Math_pow (coord_0 (scaledMesh f ! 359) - coord_0 (scaledMesh f ! 130)) 2 +
                 Math_pow (coord_1 (scaledMesh f ! 359) - coord_1 (scaledMesh f ! 130)) 2) / 250\<rparr>,
       rotation := (rotation m)
          \<lparr>x := Math_atan2 (coord_1 (scaledMesh f ! 168) - coord_1 (scaledMesh f ! 70))
                           (coord_0 (scaledMesh f ! 168) - coord_0 (scaledMesh f ! 70)),
           y := - Math_atan2 (coord_1 (scaledMesh f ! 359) - coord_1 (scaledMesh f ! 130))
                             (coord_0 (scaledMesh f ! 359) - coord_0 (scaledMesh f ! 130)),
           z := - Math_atan2 (coord_1 (scaledMesh f ! 359) - coord_1 (scaledMesh f ! 130))
                             (coord_0 (scaledMesh f ! 359) - coord_0 (scaledMesh f ! 130))\<rparr>\<rparr>)\<rparr>)"
  using assms by (simp add: detectAndPositionGlasses_resume_def js_index_def Let_def)

text \<open>
  With a mesh that stops before index 359 the read of \<^verbatim>\<open>rightEye[0]\<close> throws before
  any write to the overlay: such a cycle applies nothing.
\<close>

lemma resume_short_mesh:
  assumes "length (scaledMesh f) \<le> 359"
  shows "detectAndPositionGlasses_resume vid (f # fs) s = (Rejected TypeError, s\<lparr>isLoading := False\<rparr>)"
  using assms by (simp add: detectAndPositionGlasses_resume_def js_index_def Let_def)

text \<open>
  The scenario, evaluated: the running component issues the detection call, and the
  continuation writes position (-2, 1.9, 1), scale 0.8 and rotation (-\<pi>/2, 0, 0).
\<close>

lemma ready_component_starts:
  "detectAndPositionGlasses ready_component = AwaitEstimateFaces example_video"
  by (simp add: detectAndPositionGlasses_def ready_component_def example_video_def)

lemma tick_then_clear:
  "sched_run running_scheduler [Tick, ClearInterval] =
     \<lparr>ui = ready_component, intervalActive = False, inflight = [example_video]\<rparr>"
  by (simp add: sched_run_def running_scheduler_def ready_component_starts)

lemma example_applied:
  "detectAndPositionGlasses_resume example_video [example_face] ready_component =
     (Fulfilled, ready_component\<lparr>isLoading := False, glassesMesh := Some
        \<lparr>position = \<lparr>x = - 2, y = 19 / 10, z = 1\<rparr>,
         scale = \<lparr>x = 4 / 5, y = 4 / 5, z = 4 / 5\<rparr>,
         rotation = \<lparr>x = - (pi / 2), y = 0, z = 0\<rparr>\<rparr>\<rparr>)"
proof -
  have m: "glassesMesh ready_component = Some loaded_glasses"
    by (simp add: ready_component_def)
  have l: "359 < length (scaledMesh example_face)"
    by (simp add: example_face_def example_mesh_length)
  show ?thesis
    unfolding resume_applied [OF m l]
    by (simp add: example_face_def example_mesh_130 example_mesh_359
        example_mesh_70 example_mesh_168 example_video_def loaded_glasses_def
        coord_0_def coord_1_def scaleX_def scaleY_def offsetX_def offsetY_def
        Math_sqrt_def Math_pow_def Math_atan2_def)
qed

text \<open>
  Claim C1. In an applying cycle the scale written to the overlay is the Euclidean
  pixel distance between keypoint 130 (left eye) and keypoint 359 (right eye) divided
  by 250, the same number on all three axes. So a second cycle whose eye distance is
  twice the first one's writes twice the scale, and eye keypoints that coincide give
  the scale 0.
\<close>

theorem scale_is_eye_distance_over_250:
  assumes "glassesMesh s = Some m" and "359 < length (scaledMesh f)"
    and "scaledMesh f ! 130 = (lx, ly, lz)" and "scaledMesh f ! 359 = (rx, ry, rz)"
    and "glassesMesh s' = Some m'" and "359 < length (scaledMesh f')"
    and "scaledMesh f' ! 130 = (lx', ly', lz')" and "scaledMesh f' ! 359 = (rx', ry', rz')"
  shows "\<exists>n n'.
    glassesMesh (snd (detectAndPositionGlasses_resume vid (f # fs) s)) = Some n \<and>
    glassesMesh (snd (detectAndPositionGlasses_resume vid' (f' # fs') s')) = Some n' \<and>
    (let d = sqrt ((rx - lx)\<^sup>2 + (ry - ly)\<^sup>2); d' = sqrt ((rx' - lx')\<^sup>2 + (ry' - ly')\<^sup>2)
     in scale n = \<lparr>x = d / 250, y = d / 250, z = d / 250\<rparr> \<and>
        (d' = 2 * d \<longrightarrow>
           scale n' = \<lparr>x = 2 * x (scale n), y = 2 * y (scale n), z = 2 * z (scale n)\<rparr>) \<and>
        (lx = rx \<and> ly = ry \<longrightarrow> scale n = \<lparr>x = 0, y = 0, z = 0\<rparr>))"
  using assms
  by (simp add: resume_applied Math_sqrt_def Math_pow_def coord_0_def coord_1_def Let_def)


theorem scale_is_eye_distance_over_250_witness:
  "\<exists>n n' k.
     glassesMesh (snd (detectAndPositionGlasses_resume example_video [example_face] ready_component)) = Some n \<and>
     glassesMesh (snd (detectAndPositionGlasses_resume example_video [example_face_far] ready_component)) = Some n' \<and>
     glassesMesh (snd (detectAndPositionGlasses_resume example_video [example_face_closed] ready_component)) = Some k \<and>
     scale n = \<lparr>x = 4 / 5, y = 4 / 5, z = 4 / 5\<rparr> \<and>
     scale n' = \<lparr>x = 8 / 5, y = 8 / 5, z = 8 / 5\<rparr> \<and>
     scale k = \<lparr>x = 0, y = 0, z = 0\<rparr>"
proof -
  have m: "glassesMesh ready_component = Some loaded_glasses"
    by (simp add: ready_component_def)
  have l: "359 < length (scaledMesh example_face)" "359 < length (scaledMesh example_face_far)"
    "359 < length (scaledMesh example_face_closed)"
    by (simp_all add: example_face_def example_face_far_def example_face_closed_def example_mesh_length)
  have e: "scaledMesh example_face ! 130 = (100, 200, 0)" "scaledMesh example_face ! 359 = (300, 200, 0)"
    by (simp_all add: example_face_def example_mesh_130 example_mesh_359)
  have e': "scaledMesh example_face_far ! 130 = (100, 200, 0)"
    "scaledMesh example_face_far ! 359 = (500, 200, 0)"
    by (simp_all add: example_face_far_def example_mesh_130 example_mesh_length)
  have c: "scaledMesh example_face_closed ! 130 = (100, 200, 0)"
    "scaledMesh example_face_closed ! 359 = (100, 200, 0)"
    by (simp_all add: example_face_closed_def example_mesh_130 example_mesh_length)
  from scale_is_eye_distance_over_250 [OF m l(1) e m l(2) e', of example_video "[]" example_video "[]"]
  obtain n n' where 1:
    "glassesMesh (snd (detectAndPositionGlasses_resume example_video [example_face] ready_component)) = Some n"
    "glassesMesh (snd (detectAndPositionGlasses_resume example_video [example_face_far] ready_component)) = Some n'"
    "scale n = \<lparr>x = 4 / 5, y = 4 / 5, z = 4 / 5\<rparr>"
    "scale n' = \<lparr>x = 8 / 5, y = 8 / 5, z = 8 / 5\<rparr>"
    by (auto simp: Let_def)
  from scale_is_eye_distance_over_250 [OF m l(3) c m l(3) c, of example_video "[]" example_video "[]"]
  obtain k where 2:
    "glassesMesh (snd (detectAndPositionGlasses_resume example_video [example_face_closed] ready_component)) = Some k"
    "scale k = \<lparr>x = 0, y = 0, z = 0\<rparr>"
    by (auto simp: Let_def)
  from 1 2 show ?thesis by blast
qed

text \<open>
  Claim C2. In an applying cycle the position written is
  x = (eyeCenter.x - videoWidth / 2) * 0.01 + 0,
  y = (eyeCenter.y - videoHeight / 2) * (-0.01) + (-0.1) and z = 1, with keypoint 168
  as the eye centre.
\<close>

theorem position_from_eye_center:
  assumes "glassesMesh s = Some m" and "359 < length (scaledMesh f)"
    and "scaledMesh f ! 168 = (cx, cy, cz)"
  shows "\<exists>n. glassesMesh (snd (detectAndPositionGlasses_resume vid (f # fs) s)) = Some n \<and>
    position n = \<lparr>x = (cx - real (videoWidth vid) / 2) * 0.01 + 0,
                   y = (cy - real (videoHeight vid) / 2) * - 0.01 + - 0.1,
                   z = 1\<rparr>"
  using assms
  by (simp add: resume_applied scaleX_def scaleY_def offsetX_def offsetY_def coord_0_def coord_1_def)

theorem position_from_eye_center_witness:
  "\<exists>n. glassesMesh (snd (detectAndPositionGlasses_resume example_video [example_face] ready_component)) = Some n \<and>
     position n = \<lparr>x = - 2, y = 19 / 10, z = 1\<rparr>"
proof -
  have m: "glassesMesh ready_component = Some loaded_glasses"
    by (simp add: ready_component_def)
  have l: "359 < length (scaledMesh example_face)"
    by (simp add: example_face_def example_mesh_length)
  have c: "scaledMesh example_face ! 168 = (200, 200, 0)"
    by (simp add: example_face_def example_mesh_168)
  show ?thesis
    using position_from_eye_center [OF m l c, of example_video "[]"]
    by (simp add: example_video_def)
qed

text \<open>
  Claim C3. In an applying cycle the roll-equivalent rotation (about z) is the
  negated \<^verbatim>\<open>atan2\<close> of the line from the left eye to the right eye, and the
  pitch-equivalent rotation (about x) is the \<^verbatim>\<open>atan2\<close> of the vector from the nose
  keypoint (index 70) to the eye centre (index 168).
\<close>

theorem rotation_roll_and_pitch:
  assumes "glassesMesh s = Some m" and "359 < length (scaledMesh f)"
    and "scaledMesh f ! 130 = (lx, ly, lz)" and "scaledMesh f ! 359 = (rx, ry, rz)"
    and "scaledMesh f ! 70 = (nx, ny, nz)" and "scaledMesh f ! 168 = (cx, cy, cz)"
  shows "\<exists>n. glassesMesh (snd (detectAndPositionGlasses_resume vid (f # fs) s)) = Some n \<and>
    z (rotation n) = - Math_atan2 (ry - ly) (rx - lx) \<and>
    x (rotation n) = Math_atan2 (cy - ny) (cx - nx)"
  using assms by (simp add: resume_applied coord_0_def coord_1_def)

theorem rotation_roll_and_pitch_witness:
  "\<exists>n. glassesMesh (snd (detectAndPositionGlasses_resume example_video [example_face_tilted] ready_component)) = Some n \<and>
     z (rotation n) = - (pi / 4) \<and> x (rotation n) = - (pi / 2)"
proof -
  have m: "glassesMesh ready_component = Some loaded_glasses"
    by (simp add: ready_component_def)
  have l: "359 < length (scaledMesh example_face_tilted)"
    by (simp add: example_face_tilted_def example_mesh_length)
  have e: "scaledMesh example_face_tilted ! 130 = (100, 200, 0)"
    "scaledMesh example_face_tilted ! 359 = (300, 400, 0)"
    "scaledMesh example_face_tilted ! 70 = (200, 260, 0)"
    "scaledMesh example_face_tilted ! 168 = (200, 200, 0)"
    by (simp_all add: example_face_tilted_def example_mesh_130 example_mesh_70 example_mesh_168
        example_mesh_length)
  show ?thesis
    using rotation_roll_and_pitch [OF m l e, of example_video "[]"]
    by (simp add: Math_atan2_def arctan_one)
qed

text \<open>
  Claim C4. In an applying cycle the roll-equivalent rotation (about z) and the
  yaw-equivalent rotation (about y) are equal, both the negated \<^verbatim>\<open>atan2\<close> of the
  eye line; no condition on the eye coordinates is needed.
\<close>

theorem roll_equals_yaw:
  assumes "glassesMesh s = Some m" and "359 < length (scaledMesh f)"
    and "scaledMesh f ! 130 = (lx, ly, lz)" and "scaledMesh f ! 359 = (rx, ry, rz)"
  shows "\<exists>n. glassesMesh (snd (detectAndPositionGlasses_resume vid (f # fs) s)) = Some n \<and>
    z (rotation n) = y (rotation n) \<and>
    y (rotation n) = - Math_atan2 (ry - ly) (rx - lx)"
  using assms by (simp add: resume_applied coord_0_def coord_1_def)

theorem roll_equals_yaw_witness:
  "\<exists>n. glassesMesh (snd (detectAndPositionGlasses_resume example_video [example_face_tilted] ready_component)) = Some n \<and>
     z (rotation n) = y (rotation n) \<and> y (rotation n) = - (pi / 4)"
proof -
  have m: "glassesMesh ready_component = Some loaded_glasses"
    by (simp add: ready_component_def)
  have l: "359 < length (scaledMesh example_face_tilted)"
    by (simp add: example_face_tilted_def example_mesh_length)
  have e: "scaledMesh example_face_tilted ! 130 = (100, 200, 0)"
    "scaledMesh example_face_tilted ! 359 = (300, 400, 0)"
    by (simp_all add: example_face_tilted_def example_mesh_130 example_mesh_length)
  show ?thesis
    using roll_equals_yaw [OF m l e, of example_video "[]"]
    by (simp add: Math_atan2_def arctan_one)
qed

text \<open>
  Claim C9. The continuation reads the detection result at the indices 130, 359, 70
  and 168 only, and the video element through its width and height only: two results
  that agree at the four indices, with equal frame dimensions, give the same outcome
  from the same state; and when the cycle applies, the overlay written is the same
  whatever the overlay held before.
\<close>

theorem pose_depends_on_four_keypoints_and_frame:
  assumes "\<forall>i \<in> {130, 359, 70, 168}. js_index (scaledMesh f) i = js_index (scaledMesh f') i"
    and "videoWidth vid = videoWidth vid'" and "videoHeight vid = videoHeight vid'"
  shows "detectAndPositionGlasses_resume vid (f # fs) s =
      detectAndPositionGlasses_resume vid' (f' # fs') s \<and>
    (glassesMesh s \<noteq> None \<and> glassesMesh s' \<noteq> None \<and> 359 < length (scaledMesh f) \<longrightarrow>
      glassesMesh (snd (detectAndPositionGlasses_resume vid (f # fs) s)) =
      glassesMesh (snd (detectAndPositionGlasses_resume vid' (f' # fs') s')))"
proof -
  from assms have 1: "detectAndPositionGlasses_resume vid (f # fs) s =
      detectAndPositionGlasses_resume vid' (f' # fs') s"
    by (simp add: detectAndPositionGlasses_resume_def Let_def cong: option.case_cong)
  have 2: "glassesMesh (snd (detectAndPositionGlasses_resume vid (f # fs) s)) =
      glassesMesh (snd (detectAndPositionGlasses_resume vid' (f' # fs') s'))"
    if m: "glassesMesh s = Some m" and m': "glassesMesh s' = Some m'"
      and l: "359 < length (scaledMesh f)" for m m'
  proof -
    from assms(1) l have l': "359 < length (scaledMesh f')"
      and e: "scaledMesh f ! 130 = scaledMesh f' ! 130" "scaledMesh f ! 359 = scaledMesh f' ! 359"
        "scaledMesh f ! 70 = scaledMesh f' ! 70" "scaledMesh f ! 168 = scaledMesh f' ! 168"
      by (auto simp: js_index_def split: if_splits)
    have "m\<lparr>position := p, scale := q, rotation := r\<rparr> = m'\<lparr>position := p, scale := q, rotation := r\<rparr>"
      for p q r by simp
    moreover have "(position m)\<lparr>x := a, y := b, z := c\<rparr> = (position m')\<lparr>x := a, y := b, z := c\<rparr>"
      "(scale m)\<lparr>x := a, y := b, z := c\<rparr> = (scale m')\<lparr>x := a, y := b, z := c\<rparr>"
      "(rotation m)\<lparr>x := a, y := b, z := c\<rparr> = (rotation m')\<lparr>x := a, y := b, z := c\<rparr>"
      for a b c by simp_all
    ultimately show ?thesis
      using assms(2,3) e
      by (simp add: resume_applied [OF m l] resume_applied [OF m' l'])
  qed
  from 1 2 show ?thesis by auto
qed

theorem pose_depends_on_four_keypoints_and_frame_witness:
  "scaledMesh example_face \<noteq> scaledMesh example_face_other \<and>
   detectAndPositionGlasses_resume example_video [example_face] ready_component =
     detectAndPositionGlasses_resume (example_video\<lparr>readyState := 3\<rparr>) [example_face_other] ready_component \<and>
   glassesMesh (snd (detectAndPositionGlasses_resume example_video [example_face] ready_component)) =
     glassesMesh (snd (detectAndPositionGlasses_resume (example_video\<lparr>readyState := 3\<rparr>)
       [example_face_other] (ready_component\<lparr>glassesMesh := Some (loaded_glasses\<lparr>rotation := \<lparr>x = 1, y = 2, z = 3\<rparr>\<rparr>)\<rparr>)))"
proof -
  have a: "\<forall>i \<in> {130, 359, 70, 168}.
      js_index (scaledMesh example_face) i = js_index (scaledMesh example_face_other) i"
    by (simp add: js_index_def example_face_def example_face_other_def example_mesh_def)
  have d: "scaledMesh example_face \<noteq> scaledMesh example_face_other"
  proof
    assume "scaledMesh example_face = scaledMesh example_face_other"
    then have "length (scaledMesh example_face) = length (scaledMesh example_face_other)"
      by simp
    then show False
      by (simp add: example_face_def example_face_other_def example_mesh_def)
  qed
  have l: "359 < length (scaledMesh example_face)"
    by (simp add: example_face_def example_mesh_length)
  have g: "glassesMesh ready_component \<noteq> None \<and>
      glassesMesh (ready_component\<lparr>glassesMesh := Some (loaded_glasses\<lparr>rotation := \<lparr>x = 1, y = 2, z = 3\<rparr>\<rparr>)\<rparr>) \<noteq> None \<and>
      359 < length (scaledMesh example_face)"
    using l by (simp add: ready_component_def)
  have v: "videoWidth example_video = videoWidth (example_video\<lparr>readyState := 3\<rparr>)"
    "videoHeight example_video = videoHeight (example_video\<lparr>readyState := 3\<rparr>)"
    by simp_all
  from pose_depends_on_four_keypoints_and_frame [OF a v, of "[]" ready_component "[]"
      "ready_component\<lparr>glassesMesh := Some (loaded_glasses\<lparr>rotation := \<lparr>x = 1, y = 2, z = 3\<rparr>\<rparr>)\<rparr>"]
    d g
  show ?thesis by blast
qed

text \<open>
  Claim C10. The continuation never writes a negative scale: whatever the detection
  result, the scale of the overlay is left as it was or has three non-negative
  coordinates; in an applying cycle the three coordinates are one non-negative number.
\<close>

theorem scale_never_negative:
  assumes "glassesMesh s = Some m"
  shows "\<exists>n. glassesMesh (snd (detectAndPositionGlasses_resume vid faceEstimates s)) = Some n \<and>
    (scale n = scale m \<or> 0 \<le> x (scale n) \<and> 0 \<le> y (scale n) \<and> 0 \<le> z (scale n)) \<and>
    (0 < length faceEstimates \<and> 359 < length (scaledMesh (faceEstimates ! 0)) \<longrightarrow>
       0 \<le> x (scale n) \<and> x (scale n) = y (scale n) \<and> y (scale n) = z (scale n))"
  using assms
  by (auto simp: detectAndPositionGlasses_resume_def Let_def Math_sqrt_def Math_pow_def js_index_def
      split: option.split)

theorem scale_never_negative_witness:
  "\<exists>n. glassesMesh (snd (detectAndPositionGlasses_resume example_video [example_face] ready_component)) = Some n \<and>
     0 \<le> x (scale n) \<and> x (scale n) = y (scale n) \<and> y (scale n) = z (scale n)"
proof -
  have m: "glassesMesh ready_component = Some loaded_glasses"
    by (simp add: ready_component_def)
  have l: "359 < length (scaledMesh example_face)"
    by (simp add: example_face_def example_mesh_length)
  from scale_never_negative [OF m, of example_video "[example_face]"] l
  show ?thesis by auto
qed

subsection \<open>Cycles that do not apply\<close>

lemma sched_run_Nil: "sched_run st [] = st"
  by (simp add: sched_run_def)

lemma sched_run_Cons: "sched_run st (ev # evs) = sched_run (sched_step st ev) evs"
  by (simp add: sched_run_def)

lemma resume_no_face: "detectAndPositionGlasses_resume vid [] s = (Fulfilled, s)"
  by (simp add: detectAndPositionGlasses_resume_def)

lemma tick_keeps_ui: "ui (sched_step st Tick) = ui st"
  by (simp split: suspension.split)

lemma not_ready_returns:
  assumes "webcamRef s = None \<or> model s = None \<or> glassesMesh s = None"
  shows "detectAndPositionGlasses s = Returned"
  using assms by (auto simp: detectAndPositionGlasses_def split: option.split)

lemma step_quiescent:
  assumes "detectAndPositionGlasses (ui st) = Returned \<or> \<not> intervalActive st"
    and "inflight st = []"
  shows "ui (sched_step st ev) = ui st \<and> inflight (sched_step st ev) = [] \<and>
    (\<not> intervalActive st \<longrightarrow> \<not> intervalActive (sched_step st ev))"
  using assms by (cases ev) auto

lemma run_quiescent:
  assumes "detectAndPositionGlasses (ui st) = Returned \<or> \<not> intervalActive st"
    and "inflight st = []"
  shows "ui (sched_run st evs) = ui st \<and> inflight (sched_run st evs) = []"
  using assms
proof (induction evs arbitrary: st)
  case Nil
  then show ?case by (simp add: sched_run_Nil)
next
  case (Cons ev evs)
  from step_quiescent [OF Cons.prems]
  have u: "ui (sched_step st ev) = ui st" and i: "inflight (sched_step st ev) = []"
    and a: "\<not> intervalActive st \<longrightarrow> \<not> intervalActive (sched_step st ev)"
    by simp_all
  from Cons.prems(1) u a
  have "detectAndPositionGlasses (ui (sched_step st ev)) = Returned \<or>
    \<not> intervalActive (sched_step st ev)"
    by auto
  from Cons.IH [OF this i] u show ?case
    by (simp add: sched_run_Cons)
qed

lemma step_stopped:
  assumes "\<not> intervalActive st"
  shows "\<not> intervalActive (sched_step st ev) \<and>
    length (inflight (sched_step st ev)) \<le> length (inflight st)"
  using assms by (cases ev) auto

lemma run_stopped:
  assumes "\<not> intervalActive st"
  shows "\<not> intervalActive (sched_run st evs) \<and>
    length (inflight (sched_run st evs)) \<le> length (inflight st)"
  using assms
proof (induction evs arbitrary: st)
  case Nil
  then show ?case by (simp add: sched_run_Nil)
next
  case (Cons ev evs)
  from step_stopped [OF Cons.prems, of ev]
  have a: "\<not> intervalActive (sched_step st ev)"
    and l: "length (inflight (sched_step st ev)) \<le> length (inflight st)"
    by simp_all
  from Cons.IH [OF a] l show ?case
    by (simp add: sched_run_Cons)
qed

text \<open>
  Claim C5. A cycle whose detection call returns no face mutates nothing: the
  continuation returns the state it was given, so the tick and the resolution together
  leave the component, and with it every field of the overlay object, as it was.
\<close>

theorem empty_detection_leaves_overlay:
  "detectAndPositionGlasses_resume vid [] s = (Fulfilled, s) \<and>
   ui (sched_step st (EstimateFacesResolved k [])) = ui st \<and>
   ui (sched_run st [Tick, EstimateFacesResolved k []]) = ui st"
  by (simp add: resume_no_face sched_run_Cons sched_run_Nil tick_keeps_ui
      del: sched_step.simps(1))

theorem empty_detection_leaves_overlay_witness:
  "inflight (sched_step running_scheduler Tick) = [example_video] \<and>
   ui (sched_run running_scheduler [Tick, EstimateFacesResolved 0 []]) = ready_component \<and>
   glassesMesh ready_component = Some loaded_glasses"
  using empty_detection_leaves_overlay [of example_video ready_component running_scheduler 0]
  by (simp add: running_scheduler_def ready_component_starts) (simp add: ready_component_def)

text \<open>
  Claim C6. When the webcam ref, the model or the overlay object is unset, the
  function returns before the detection call, and the tick changes nothing; from a
  scheduler with no call in flight, no sequence of events then issues a detection
  call or changes the component.
\<close>

theorem not_ready_no_detection_no_write:
  assumes "webcamRef (ui st) = None \<or> model (ui st) = None \<or> glassesMesh (ui st) = None"
  shows "detectAndPositionGlasses (ui st) = Returned \<and>
    sched_step st Tick = st \<and>
    (inflight st = [] \<longrightarrow>
       ui (sched_run st evs) = ui st \<and> inflight (sched_run st evs) = [])"
proof -
  from assms have r: "detectAndPositionGlasses (ui st) = Returned"
    by (rule not_ready_returns)
  then have "sched_step st Tick = st" by simp
  moreover from r run_quiescent [of st evs]
  have "inflight st = [] \<longrightarrow>
       ui (sched_run st evs) = ui st \<and> inflight (sched_run st evs) = []"
    by simp
  ultimately show ?thesis using r by simp
qed

theorem not_ready_no_detection_no_write_witness:
  "glassesMesh (ui asset_missing_scheduler) = None \<and>
   sched_step asset_missing_scheduler Tick = asset_missing_scheduler \<and>
   ui (sched_run asset_missing_scheduler [Tick, EstimateFacesResolved 0 [example_face], Tick]) =
     ui asset_missing_scheduler \<and>
   inflight (sched_run asset_missing_scheduler [Tick, EstimateFacesResolved 0 [example_face], Tick]) = []"
proof -
  have g: "glassesMesh (ui asset_missing_scheduler) = None"
    and i: "inflight asset_missing_scheduler = []"
    by (simp_all add: asset_missing_scheduler_def)
  from g have "webcamRef (ui asset_missing_scheduler) = None \<or>
    model (ui asset_missing_scheduler) = None \<or> glassesMesh (ui asset_missing_scheduler) = None"
    by simp
  from not_ready_no_detection_no_write [OF this,
      of "[Tick, EstimateFacesResolved 0 [example_face], Tick]"] g i
  show ?thesis by simp
qed

text \<open>
  Claim C8. When the video element's \<^verbatim>\<open>readyState\<close> is not 4, the function returns
  before the detection call and the tick changes nothing, also when the webcam, the
  model and the overlay object are all present.
\<close>

theorem video_not_ready_is_noop:
  assumes "webcamRef (ui st) = Some w" and "readyState (video w) \<noteq> 4"
  shows "detectAndPositionGlasses (ui st) = Returned \<and> sched_step st Tick = st"
  using assms by (simp add: detectAndPositionGlasses_def)

theorem video_not_ready_is_noop_witness:
  "model (ui buffering_scheduler) = Some MediaPipeFacemesh \<and>
   glassesMesh (ui buffering_scheduler) = Some loaded_glasses \<and>
   detectAndPositionGlasses (ui buffering_scheduler) = Returned \<and>
   sched_step buffering_scheduler Tick = buffering_scheduler"
proof -
  have w: "webcamRef (ui buffering_scheduler) = Some \<lparr>video = example_video\<lparr>readyState := 2\<rparr>\<rparr>"
    by (simp add: buffering_scheduler_def)
  have r: "readyState (video \<lparr>video = example_video\<lparr>readyState := 2\<rparr>\<rparr>) \<noteq> 4"
    by simp
  from video_not_ready_is_noop [OF w r] show ?thesis
    by (simp add: buffering_scheduler_def ready_component_def)
qed

subsection \<open>After the interval is cleared\<close>

text \<open>
  Claim C7, as stated, fails: a detection call issued by a tick is still in flight
  when the interval is cleared; it then resolves with the scenario's face, and the
  continuation writes the pose to the overlay object.
\<close>

theorem inflight_result_written_after_stop:
  "intervalActive (sched_run running_scheduler [Tick, ClearInterval]) = False \<and>
   glassesMesh (ui (sched_run running_scheduler [Tick, ClearInterval])) = Some loaded_glasses \<and>
   glassesMesh (ui (sched_run running_scheduler
       [Tick, ClearInterval, EstimateFacesResolved 0 [example_face]])) =
     Some \<lparr>position = \<lparr>x = - 2, y = 19 / 10, z = 1\<rparr>,
           scale = \<lparr>x = 4 / 5, y = 4 / 5, z = 4 / 5\<rparr>,
           rotation = \<lparr>x = - (pi / 2), y = 0, z = 0\<rparr>\<rparr> \<and>
   glassesMesh (ui (sched_run running_scheduler
       [Tick, ClearInterval, EstimateFacesResolved 0 [example_face]])) \<noteq>
     glassesMesh (ui (sched_run running_scheduler [Tick, ClearInterval]))"
proof -
  have "sched_run running_scheduler [Tick, ClearInterval, EstimateFacesResolved 0 [example_face]] =
    sched_step (sched_run running_scheduler [Tick, ClearInterval]) (EstimateFacesResolved 0 [example_face])"
    by (simp add: sched_run_def)
  then show ?thesis
    by (simp add: tick_then_clear example_applied) (simp add: ready_component_def loaded_glasses_def)
qed

text \<open>
  Claim C7, amended. Once the interval is cleared, a tick runs nothing, no new
  detection call is issued (the calls in flight can only become fewer), and with no
  call in flight the component never changes again. A call that was in flight at the
  stop is not discarded when it resolves: with an empty result the component stays as
  it was, and with a face whose mesh reaches index 359 the overlay object is
  overwritten with the pose of that face, computed with the frame size of the video
  element the call captured.
\<close>

theorem stop_ends_requests_inflight_still_applied:
  assumes "\<not> intervalActive st"
  shows "sched_step st Tick = st \<and>
    \<not> intervalActive (sched_run st evs) \<and>
    length (inflight (sched_run st evs)) \<le> length (inflight st) \<and>
    (inflight st = [] \<longrightarrow> ui (sched_run st evs) = ui st) \<and>
    (k < length (inflight st) \<longrightarrow>
       ui (sched_step st (EstimateFacesResolved k [])) = ui st) \<and>
    (k < length (inflight st) \<and> glassesMesh (ui st) = Some m \<and>
     359 < length (scaledMesh f) \<and>
     scaledMesh f ! 130 = (lx, ly, lz) \<and> scaledMesh f ! 359 = (rx, ry, rz) \<and>
     scaledMesh f ! 70 = (nx, ny, nz) \<and> scaledMesh f ! 168 = (cx, cy, cz) \<longrightarrow>
       glassesMesh (ui (sched_step st (EstimateFacesResolved k (f # fs)))) =
         Some \<lparr>position =
                 \<lparr>x = (cx - real (videoWidth (inflight st ! k)) / 2) * 0.01 + 0,
                  y = (cy - real (videoHeight (inflight st ! k)) / 2) * - 0.01 + - 0.1,
                  z = 1\<rparr>,
               scale =
                 \<lparr>x = sqrt ((rx - lx)\<^sup>2 + (ry - ly)\<^sup>2) / 250,
                  y = sqrt ((rx - lx)\<^sup>2 + (ry - ly)\<^sup>2) / 250,
                  z = sqrt ((rx - lx)\<^sup>2 + (ry - ly)\<^sup>2) / 250\<rparr>,
               rotation =
                 \<lparr>x = Math_atan2 (cy - ny) (cx - nx),
                  y = - Math_atan2 (ry - ly) (rx - lx),
                  z = - Math_atan2 (ry - ly) (rx - lx)\<rparr>\<rparr>)"
proof -
  have applied: "glassesMesh (ui (sched_step st (EstimateFacesResolved k (f # fs)))) =
         Some \<lparr>position =
                 \<lparr>x = (cx - real (videoWidth (inflight st ! k)) / 2) * 0.01 + 0,
                  y = (cy - real (videoHeight (inflight st ! k)) / 2) * - 0.01 + - 0.1,
                  z = 1\<rparr>,
               scale =
                 \<lparr>x = sqrt ((rx - lx)\<^sup>2 + (ry - ly)\<^sup>2) / 250,
                  y = sqrt ((rx - lx)\<^sup>2 + (ry - ly)\<^sup>2) / 250,
                  z = sqrt ((rx - lx)\<^sup>2 + (ry - ly)\<^sup>2) / 250\<rparr>,
               rotation =
                 \<lparr>x = Math_atan2 (cy - ny) (cx - nx),
                  y = - Math_atan2 (ry - ly) (rx - lx),
                  z = - Math_atan2 (ry - ly) (rx - lx)\<rparr>\<rparr>"
    if k: "k < length (inflight st)" and m: "glassesMesh (ui st) = Some m"
      and l: "359 < length (scaledMesh f)"
      and e: "scaledMesh f ! 130 = (lx, ly, lz)" "scaledMesh f ! 359 = (rx, ry, rz)"
        "scaledMesh f ! 70 = (nx, ny, nz)" "scaledMesh f ! 168 = (cx, cy, cz)"
  proof -
    have "m\<lparr>position := p, scale := q, rotation := r\<rparr> = \<lparr>position = p, scale = q, rotation = r\<rparr>"
      for p q r by simp
    moreover have "(position m)\<lparr>x := a, y := b, z := c\<rparr> = \<lparr>x = a, y = b, z = c\<rparr>"
      "(scale m)\<lparr>x := a, y := b, z := c\<rparr> = \<lparr>x = a, y = b, z = c\<rparr>"
      "(rotation m)\<lparr>x := a, y := b, z := c\<rparr> = \<lparr>x = a, y = b, z = c\<rparr>"
      for a b c by simp_all
    ultimately show ?thesis
      using k e
      by (simp add: resume_applied [OF m l] coord_0_def coord_1_def scaleX_def scaleY_def
          offsetX_def offsetY_def Math_sqrt_def Math_pow_def)
  qed
  from assms have "sched_step st Tick = st" by simp
  moreover from run_stopped [OF assms, of evs]
  have "\<not> intervalActive (sched_run st evs) \<and>
    length (inflight (sched_run st evs)) \<le> length (inflight st)" .
  moreover from assms run_quiescent [of st evs]
  have "inflight st = [] \<longrightarrow> ui (sched_run st evs) = ui st" by simp
  moreover have "k < length (inflight st) \<longrightarrow>
       ui (sched_step st (EstimateFacesResolved k [])) = ui st"
    by (simp add: resume_no_face)
  ultimately show ?thesis using applied by blast
qed

theorem stop_ends_requests_inflight_still_applied_witness:
  "intervalActive (sched_step running_scheduler ClearInterval) = False \<and>
   ui (sched_run (sched_step running_scheduler ClearInterval) [Tick, Tick]) = ready_component \<and>
   inflight (sched_run (sched_step running_scheduler ClearInterval) [Tick, Tick]) = [] \<and>
   inflight (sched_run running_scheduler [Tick, ClearInterval]) = [example_video] \<and>
   ui (sched_step (sched_run running_scheduler [Tick, ClearInterval]) (EstimateFacesResolved 0 [])) =
     ready_component \<and>
   glassesMesh (ui (sched_step (sched_run running_scheduler [Tick, ClearInterval])
       (EstimateFacesResolved 0 [example_face_tilted]))) =
     Some \<lparr>position = \<lparr>x = - 2, y = 19 / 10, z = 1\<rparr>,
           scale = \<lparr>x = sqrt 80000 / 250, y = sqrt 80000 / 250, z = sqrt 80000 / 250\<rparr>,
           rotation = \<lparr>x = - (pi / 2), y = - (pi / 4), z = - (pi / 4)\<rparr>\<rparr>"
proof -
  have a: "\<not> intervalActive (sched_step running_scheduler ClearInterval)"
    and b: "\<not> intervalActive (sched_run running_scheduler [Tick, ClearInterval])"
    by (simp_all add: tick_then_clear)
  have i: "inflight (sched_step running_scheduler ClearInterval) = []"
    "ui (sched_step running_scheduler ClearInterval) = ready_component"
    by (simp_all add: running_scheduler_def)
  have h: "0 < length (inflight (sched_run running_scheduler [Tick, ClearInterval])) \<and>
     glassesMesh (ui (sched_run running_scheduler [Tick, ClearInterval])) = Some loaded_glasses \<and>
     359 < length (scaledMesh example_face_tilted) \<and>
     scaledMesh example_face_tilted ! 130 = (100, 200, 0) \<and>
     scaledMesh example_face_tilted ! 359 = (300, 400, 0) \<and>
     scaledMesh example_face_tilted ! 70 = (200, 260, 0) \<and>
     scaledMesh example_face_tilted ! 168 = (200, 200, 0)"
    by (simp add: tick_then_clear example_face_tilted_def example_mesh_130 example_mesh_70
        example_mesh_168 example_mesh_length) (simp add: ready_component_def)
  have v: "inflight (sched_run running_scheduler [Tick, ClearInterval]) ! 0 = example_video"
    "inflight (sched_run running_scheduler [Tick, ClearInterval]) = [example_video]"
    "ui (sched_run running_scheduler [Tick, ClearInterval]) = ready_component"
    by (simp_all add: tick_then_clear)
  from stop_ends_requests_inflight_still_applied [OF a, of "[Tick, Tick]"] i
  have 1: "ui (sched_run (sched_step running_scheduler ClearInterval) [Tick, Tick]) = ready_component"
    by simp
  from run_quiescent [of "sched_step running_scheduler ClearInterval" "[Tick, Tick]"] a i
  have 2: "inflight (sched_run (sched_step running_scheduler ClearInterval) [Tick, Tick]) = []"
    by simp
  from stop_ends_requests_inflight_still_applied [OF b, of "[]" 0 loaded_glasses example_face_tilted
      100 200 0 300 400 0 200 260 0 200 200 0 "[]"] h v
  have 3: "ui (sched_step (sched_run running_scheduler [Tick, ClearInterval])
        (EstimateFacesResolved 0 [])) = ready_component"
    and 4: "glassesMesh (ui (sched_step (sched_run running_scheduler [Tick, ClearInterval])
       (EstimateFacesResolved 0 [example_face_tilted]))) =
     Some \<lparr>position = \<lparr>x = - 2, y = 19 / 10, z = 1\<rparr>,
           scale = \<lparr>x = sqrt 80000 / 250, y = sqrt 80000 / 250, z = sqrt 80000 / 250\<rparr>,
           rotation = \<lparr>x = - (pi / 2), y = - (pi / 4), z = - (pi / 4)\<rparr>\<rparr>"
    by (simp_all add: example_video_def Math_atan2_def arctan_one)
  from a 1 2 3 4 v(2) show ?thesis by simp
qed

end
